theory Spec2Isabelle
  imports Main "HOL-Library.Word"
begin

unbundle bit_operations_syntax

section \<open>admin/angel/Core.c: the bootstrap of the core process\<close>

text \<open>
  A shallow embedding of \<^verbatim>\<open>src/admin/angel/Core.c\<close>. Binary data (\<^verbatim>\<open>uint8_t\<close> arrays
  such as keys, addresses and the sync magic) is a list of 8-bit words; text buffers
  (\<^verbatim>\<open>char\<close> arrays, benc strings, \<^verbatim>\<open>argv\<close>) are HOL strings, whose characters are
  bytes. \<^verbatim>\<open>Except_raise\<close> and a failed assertion end the process; they are the
  \<open>Inl\<close> results of the model.
\<close>

type_synonym byte = "8 word"
type_synonym bytes = "byte list"

datatype error =
    Exception int string
  | AssertionFailed
  | AllocatorFailsafe

text \<open>\<^verbatim>\<open>Except_raise(eh, code, message)\<close>: never returns to its caller.\<close>

definition Except_raise :: "int \<Rightarrow> string \<Rightarrow> error + 'a" where
  "Except_raise code message = Inl (Exception code message)"

subsection \<open>Identity derivation: parsePrivateKey\<close>

text \<open>\<^verbatim>\<open>struct Address\<close>, the two fields that Core.c touches: \<^verbatim>\<open>addr->key\<close> (32 bytes)
  and \<^verbatim>\<open>addr->ip6.bytes\<close> (16 bytes).\<close>

record Address =
  addr_key :: bytes
  addr_ip6 :: bytes

text \<open>
  \<^verbatim>\<open>crypto_scalarmult_curve25519_base\<close> (NaCl) and \<^verbatim>\<open>AddressCalc_addressForPublicKey\<close>
  are not among the sources; both write an output buffer that is a function of their
  input buffer, and are parameters of the model. \<^verbatim>\<open>addr->ip6.bytes\<close> is an array of 16
  bytes, so the address function is to give 16 bytes and byte 0 is there to be read.
\<close>

definition parsePrivateKey ::
  "(bytes \<Rightarrow> bytes) \<Rightarrow> (bytes \<Rightarrow> bytes) \<Rightarrow> bytes \<Rightarrow> error + Address" where
  "parsePrivateKey crypto_scalarmult_curve25519_base AddressCalc_addressForPublicKey privateKey =
     (let k = crypto_scalarmult_curve25519_base privateKey;
          ip = AddressCalc_addressForPublicKey k
      in if ip ! 0 \<noteq> 0xFC
         then Except_raise (- 1) ''Ip address outside of the FC00/8 range, invalid private key.''
         else Inr \<lparr>addr_key = k, addr_ip6 = ip\<rparr>)"

subsection \<open>Command line: atoi and the argument check of Core_main\<close>

text \<open>
  The C \<^verbatim>\<open>int\<close> of the descriptors is a 32-bit word, read as a signed number with
  \<open>sint\<close>.
\<close>

type_synonym c_int = "32 word"

text \<open>
  \<^verbatim>\<open>atoi\<close> of the C library is \<^verbatim>\<open>(int) strtol(nptr, NULL, 10)\<close>. \<^verbatim>\<open>strtol\<close> skips white
  space, reads an optional sign and then decimal digits up to the first other character
  (no digits give 0), and gives \<^verbatim>\<open>LONG_MAX\<close> or \<^verbatim>\<open>LONG_MIN\<close> for a value outside
  \<^verbatim>\<open>long\<close>, here 64 bits; the conversion to \<^verbatim>\<open>int\<close> keeps the low 32 bits. For a value
  inside \<^verbatim>\<open>int\<close> the result is that value; outside it, where ISO C leaves \<^verbatim>\<open>atoi\<close>
  undefined, this is what the C library computes (\<^verbatim>\<open>atoi("4294967296")\<close> is 0).
  \<open>decimal_value\<close> is the number that is written, without bound.
\<close>

definition isspace :: "char \<Rightarrow> bool" where
  "isspace c = (c = CHR '' '' \<or> (9 :: nat) \<le> of_char c \<and> (of_char c :: nat) \<le> 13)"

definition isdigit :: "char \<Rightarrow> bool" where
  "isdigit c = ((48 :: nat) \<le> of_char c \<and> (of_char c :: nat) \<le> 57)"

fun atoi_digits :: "int \<Rightarrow> string \<Rightarrow> int" where
  "atoi_digits acc [] = acc"
| "atoi_digits acc (c # cs) =
     (if isdigit c then atoi_digits (10 * acc + (int (of_char c) - 48)) cs else acc)"

definition decimal_value :: "string \<Rightarrow> int" where
  "decimal_value nptr =
     (case dropWhile isspace nptr of
        [] \<Rightarrow> 0
      | c # cs \<Rightarrow>
          if c = CHR ''-'' then - atoi_digits 0 cs
          else if c = CHR ''+'' then atoi_digits 0 cs
          else atoi_digits 0 (c # cs))"

definition LONG_MAX :: int where
  "LONG_MAX = 2 ^ 63 - 1"

definition LONG_MIN :: int where
  "LONG_MIN = - (2 ^ 63)"

definition strtol :: "string \<Rightarrow> int" where
  "strtol nptr =
     (let v = decimal_value nptr
      in if v > LONG_MAX then LONG_MAX else if v < LONG_MIN then LONG_MIN else v)"

definition atoi :: "string \<Rightarrow> c_int" where
  "atoi nptr = word_of_int (strtol nptr)"

text \<open>
  Lines 199 to 204 of \<^verbatim>\<open>Core_main\<close>; \<^verbatim>\<open>argc\<close> is the length of \<^verbatim>\<open>argv\<close>. The
  disjunction is evaluated left to right, so \<^verbatim>\<open>argv[2]\<close> and \<^verbatim>\<open>argv[3]\<close> are read only
  when \<^verbatim>\<open>argc\<close> is 4. The result is \<^verbatim>\<open>(toAngel, fromAngel)\<close>.
\<close>

definition Core_args :: "string list \<Rightarrow> error + (c_int \<times> c_int)" where
  "Core_args argv =
     (if length argv \<noteq> 4
         \<or> atoi (argv ! 2) = 0
         \<or> atoi (argv ! 3) = 0
      then Except_raise (- 1) ''This is internal to cjdns and shouldn't started manually.''
      else Inr (atoi (argv ! 2), atoi (argv ! 3)))"

subsection \<open>Hex coding\<close>

text \<open>
  Modelled from the spec: \<^verbatim>\<open>util/Hex\<close> is not among the sources. \<^verbatim>\<open>Hex_encode\<close> gives two
  lowercase hex characters for each input byte, high nibble first (spec: "16 lowercase hex
  chars ... the encoding of the 8-byte token"). \<^verbatim>\<open>Hex_decode\<close> turns pairs of hex characters
  into bytes and fails on a character that is no hex digit or on an odd number of characters
  (spec: "exactly 64 hex characters decoding to exactly 32 bytes"); digits of either case are
  taken as hex characters.
\<close>

definition hexEntities :: string where
  "hexEntities = ''0123456789abcdef''"

definition Hex_encodeByte :: "byte \<Rightarrow> string" where
  "Hex_encodeByte b = [hexEntities ! unat (drop_bit 4 b), hexEntities ! unat (b AND 0xF)]"

definition Hex_encode :: "bytes \<Rightarrow> string" where
  "Hex_encode input = concat (map Hex_encodeByte input)"

definition Hex_digit :: "char \<Rightarrow> byte option" where
  "Hex_digit c =
     (let n = (of_char c :: nat)
      in if 48 \<le> n \<and> n \<le> 57 then Some (of_nat (n - 48))
         else if 97 \<le> n \<and> n \<le> 102 then Some (of_nat (n - 87))
         else if 65 \<le> n \<and> n \<le> 70 then Some (of_nat (n - 55))
         else None)"

definition isxdigit :: "char \<Rightarrow> bool" where
  "isxdigit c = (Hex_digit c \<noteq> None)"

fun Hex_decode :: "string \<Rightarrow> bytes option" where
  "Hex_decode [] = Some []"
| "Hex_decode [c] = None"
| "Hex_decode (h # l # cs) =
     (case Hex_digit h of
        None \<Rightarrow> None
      | Some a \<Rightarrow>
          (case Hex_digit l of
             None \<Rightarrow> None
           | Some b \<Rightarrow>
               (case Hex_decode cs of
                  None \<Rightarrow> None
                | Some r \<Rightarrow> Some ((push_bit 4 a OR b) # r))))"

subsection \<open>Benc objects and dictionaries\<close>

text \<open>
  Modelled from the spec: the \<^verbatim>\<open>benc\<close> library (\<^verbatim>\<open>Dict\<close>, \<^verbatim>\<open>String\<close>, the standard
  serializer) is not among the sources. The objects are the ones Core.c builds
  (\<^verbatim>\<open>String_OBJ\<close>, \<^verbatim>\<open>Int_OBJ\<close>, dictionaries); a dictionary is an ordered list of
  key/value pairs (spec: "a length-prefixed, ordered key/value serialization"). A lookup
  gives NULL, here \<open>None\<close>, when the dictionary is NULL, when the key is absent and when the
  value is of another kind (spec: "Missing/malformed required keys ... fatal").
\<close>

datatype Object =
    String_OBJ string
  | Int_OBJ int
  | Dict_OBJ "(string \<times> Object) list"

type_synonym Dict = "(string \<times> Object) list"

definition Dict_getString :: "Dict option \<Rightarrow> string \<Rightarrow> string option" where
  "Dict_getString dictionary k =
     (case dictionary of
        None \<Rightarrow> None
      | Some d \<Rightarrow> (case map_of d k of Some (String_OBJ s) \<Rightarrow> Some s | _ \<Rightarrow> None))"

definition Dict_getDict :: "Dict option \<Rightarrow> string \<Rightarrow> Dict option" where
  "Dict_getDict dictionary k =
     (case dictionary of
        None \<Rightarrow> None
      | Some d \<Rightarrow> (case map_of d k of Some (Dict_OBJ s) \<Rightarrow> Some s | _ \<Rightarrow> None))"

text \<open>
  Modelled from the spec: the standard serializer's \<^verbatim>\<open>parseDictionary\<close>, for the wire form
  that the literal of \<^verbatim>\<open>sendResponse\<close> is written in: a string is its decimal length, a
  colon and its bytes; an integer is \<^verbatim>\<open>i\<close>, an optional minus sign, decimal digits and
  \<^verbatim>\<open>e\<close>; a dictionary is \<^verbatim>\<open>d\<close>, its keys (strings) each followed by its value, and
  \<^verbatim>\<open>e\<close>. The reader stops after the closing \<^verbatim>\<open>e\<close> of the outermost dictionary; what
  follows in the buffer is not read. The first argument of the recursive functions bounds
  the nesting depth by the length of the input.
\<close>

fun parseDigits :: "nat \<Rightarrow> string \<Rightarrow> nat \<times> string" where
  "parseDigits acc [] = (acc, [])"
| "parseDigits acc (c # cs) =
     (if isdigit c then parseDigits (10 * acc + (of_char c - 48)) cs else (acc, c # cs))"

definition parseString :: "string \<Rightarrow> (string \<times> string) option" where
  "parseString s =
     (case s of
        [] \<Rightarrow> None
      | c # cs \<Rightarrow>
          if \<not> isdigit c then None
          else (case parseDigits 0 s of
                  (n, r) \<Rightarrow>
                    (case r of
                       [] \<Rightarrow> None
                     | c' # body \<Rightarrow>
                         if c' = CHR '':'' \<and> n \<le> length body
                         then Some (take n body, drop n body)
                         else None)))"

definition parseInt :: "string \<Rightarrow> (int \<times> string) option" where
  "parseInt s =
     (let neg = (s \<noteq> [] \<and> hd s = CHR ''-'');
          ds = (if neg then tl s else s)
      in case ds of
           [] \<Rightarrow> None
         | c # cs \<Rightarrow>
             if \<not> isdigit c then None
             else (case parseDigits 0 ds of
                     (n, r) \<Rightarrow>
                       (case r of
                          [] \<Rightarrow> None
                        | c' # rest \<Rightarrow>
                            if c' = CHR ''e''
                            then Some (if neg then - int n else int n, rest)
                            else None)))"

fun parseObject :: "nat \<Rightarrow> string \<Rightarrow> (Object \<times> string) option"
  and parseEntries :: "nat \<Rightarrow> string \<Rightarrow> (Dict \<times> string) option" where
  "parseObject 0 s = None"
| "parseObject (Suc depth) s =
     (case s of
        [] \<Rightarrow> None
      | c # cs \<Rightarrow>
          if c = CHR ''d'' then map_option (\<lambda>(d, r). (Dict_OBJ d, r)) (parseEntries depth cs)
          else if c = CHR ''i'' then map_option (\<lambda>(i, r). (Int_OBJ i, r)) (parseInt cs)
          else map_option (\<lambda>(t, r). (String_OBJ t, r)) (parseString s))"
| "parseEntries 0 s = None"
| "parseEntries (Suc depth) s =
     (case s of
        [] \<Rightarrow> None
      | c # cs \<Rightarrow>
          if c = CHR ''e'' then Some ([], cs)
          else (case parseString s of
                  None \<Rightarrow> None
                | Some (k, r) \<Rightarrow>
                    (case parseObject depth r of
                       None \<Rightarrow> None
                     | Some (v, r') \<Rightarrow>
                         (case parseEntries depth r' of
                            None \<Rightarrow> None
                          | Some (es, r'') \<Rightarrow> Some ((k, v) # es, r'')))))"

definition StandardBencSerializer_parseDictionary :: "string \<Rightarrow> Dict option" where
  "StandardBencSerializer_parseDictionary buff =
     (case buff of
        [] \<Rightarrow> None
      | c # cs \<Rightarrow>
          if c = CHR ''d'' then map_option fst (parseEntries (length buff) cs) else None)"

subsection \<open>Handshake, inbound: getInitialConfig\<close>

text \<open>
  Modelled from the spec: \<^verbatim>\<open>Waiter_getData\<close> is not among the sources. It either raises
  through the exception handler (a read error) or copies what the inbound pipe delivers, at
  most \<^verbatim>\<open>bufferSize\<close> bytes, to the start of the caller's buffer and returns the number of
  bytes copied (spec: "Read from the inbound pipe into a fixed-size buffer"). The buffer is
  the zero-initialised \<^verbatim>\<open>buff\<close> of \<^verbatim>\<open>getInitialConfig\<close>; the result is
  \<^verbatim>\<open>(amountRead, buff)\<close>.
\<close>

definition Waiter_getData :: "nat \<Rightarrow> error + string \<Rightarrow> error + (nat \<times> string)" where
  "Waiter_getData bufferSize fromAngel =
     (case fromAngel of
        Inl e \<Rightarrow> Inl e
      | Inr delivered \<Rightarrow>
          (let got = take bufferSize delivered
           in Inr (length got, got @ replicate (bufferSize - length got) (CHR 0x00))))"

text \<open>
  \<^verbatim>\<open>getInitialConfig\<close>. The constant \<^verbatim>\<open>AngelChan_INITIAL_CONF_BUFF_SIZE\<close> and the parser
  of the standard benc serializer are declared outside Core.c and are parameters. The reader
  is made over the whole buffer, not over the bytes read.
\<close>

definition getInitialConfig ::
  "nat \<Rightarrow> (string \<Rightarrow> Dict option) \<Rightarrow> error + string \<Rightarrow> error + Dict" where
  "getInitialConfig AngelChan_INITIAL_CONF_BUFF_SIZE parseDictionary fromAngel =
     (case Waiter_getData AngelChan_INITIAL_CONF_BUFF_SIZE fromAngel of
        Inl e \<Rightarrow> Inl e
      | Inr (amountRead, buff) \<Rightarrow>
          if amountRead = AngelChan_INITIAL_CONF_BUFF_SIZE
          then Except_raise (- 1) ''initial config exceeds INITIAL_CONF_BUFF_SIZE''
          else (case parseDictionary buff of
                  None \<Rightarrow> Except_raise (- 1) ''Failed to parse initial configuration.''
                | Some config \<Rightarrow> Inr config))"

subsection \<open>The required keys of the configuration\<close>

text \<open>
  Lines 225 to 230 of \<^verbatim>\<open>Core_main\<close>: the result is the admin password and the hex string
  of the private key.
\<close>

definition Core_config_keys :: "Dict \<Rightarrow> error + (string \<times> string)" where
  "Core_config_keys config =
     (let privateKeyHex = Dict_getString (Some config) ''privateKey'';
          adminConf = Dict_getDict (Some config) ''admin'';
          pass = Dict_getString adminConf ''pass''
      in case pass of
           None \<Rightarrow> Except_raise (- 1) ''Expected 'pass' and 'privateKey' in configuration.''
         | Some pass_bytes \<Rightarrow>
             (case privateKeyHex of
                None \<Rightarrow> Except_raise (- 1) ''Expected 'pass' and 'privateKey' in configuration.''
              | Some hex \<Rightarrow> Inr (pass_bytes, hex)))"

text \<open>
  Lines 232 to 237: the 32 bytes of the private key. \<^verbatim>\<open>Hex_decode\<close> is given the first 64
  bytes of the string and a 32-byte output buffer, and is called only when the string has
  64 bytes.
\<close>

definition Core_config_privateKey :: "string \<Rightarrow> error + bytes" where
  "Core_config_privateKey privateKeyHex =
     (if length privateKeyHex \<noteq> 64
      then Except_raise (- 1) ''privateKey must be 64 bytes of hex.''
      else (case Hex_decode (take 64 privateKeyHex) of
              None \<Rightarrow> Except_raise (- 1) ''privateKey must be 64 bytes of hex.''
            | Some privateKey \<Rightarrow>
                if length privateKey \<noteq> 32
                then Except_raise (- 1) ''privateKey must be 64 bytes of hex.''
                else Inr privateKey))"

text \<open>Both checks in sequence, as \<^verbatim>\<open>Core_main\<close> runs them (the password is logged between
  the two).\<close>

definition Core_config :: "Dict \<Rightarrow> error + (string \<times> bytes)" where
  "Core_config config =
     (case Core_config_keys config of
        Inl e \<Rightarrow> Inl e
      | Inr (pass, privateKeyHex) \<Rightarrow>
          (case Core_config_privateKey privateKeyHex of
             Inl e \<Rightarrow> Inl e
           | Inr privateKey \<Rightarrow> Inr (pass, privateKey)))"

subsection \<open>Handshake, outbound: sendResponse\<close>

text \<open>\<^verbatim>\<open>strlen\<close> and \<^verbatim>\<open>strstr\<close> of the C library, on a buffer that holds a NUL byte;
  \<^verbatim>\<open>strstr\<close> gives the offset of the first occurrence, \<open>None\<close> for NULL.\<close>

definition c_str :: "string \<Rightarrow> string" where
  "c_str buff = takeWhile (\<lambda>c. c \<noteq> CHR 0x00) buff"

definition strlen :: "string \<Rightarrow> nat" where
  "strlen buff = length (c_str buff)"

fun find_str :: "string \<Rightarrow> string \<Rightarrow> nat option" where
  "find_str [] needle = (if needle = [] then Some 0 else None)"
| "find_str (c # cs) needle =
     (if take (length needle) (c # cs) = needle then Some 0
      else map_option Suc (find_str cs needle))"

definition strstr :: "string \<Rightarrow> string \<Rightarrow> nat option" where
  "strstr haystack needle = find_str (c_str haystack) (c_str needle)"

text \<open>The 16 placeholder bytes \<^verbatim>\<open>\1\1\2\3\4\5\6\7\1\1\2\3\4\5\6\7\<close> and the 64-byte
  \<^verbatim>\<open>buff\<close> of \<^verbatim>\<open>sendResponse\<close>, NUL-padded as a C initialiser is.\<close>

definition sendResponse_placeholder :: string where
  "sendResponse_placeholder =
     [CHR 0x01, CHR 0x01, CHR 0x02, CHR 0x03, CHR 0x04, CHR 0x05, CHR 0x06, CHR 0x07,
      CHR 0x01, CHR 0x01, CHR 0x02, CHR 0x03, CHR 0x04, CHR 0x05, CHR 0x06, CHR 0x07]"

definition sendResponse_buff :: string where
  "sendResponse_buff =
     (let lit = ''d'' @ ''5:angel'' @ ''d'' @ ''9:syncMagic'' @ ''16:'' @ sendResponse_placeholder
                @ ''e'' @ ''e''
      in lit @ replicate (64 - length lit) (CHR 0x00))"

text \<open>
  \<^verbatim>\<open>sendResponse\<close>: the result is the descriptor and the bytes handed to \<^verbatim>\<open>write\<close>.
  \<^verbatim>\<open>Hex_encode(location, 16, syncMagic, 8)\<close> reads 8 bytes and overwrites the buffer from
  \<^verbatim>\<open>location\<close> on.
\<close>

definition sendResponse :: "c_int \<Rightarrow> bytes \<Rightarrow> error + (c_int \<times> string)" where
  "sendResponse toAngel syncMagic =
     (let buff = sendResponse_buff;
          len = strlen buff
      in case strstr buff sendResponse_placeholder of
           None \<Rightarrow> Inl AssertionFailed
         | Some location \<Rightarrow>
             if \<not> location > 0 then Inl AssertionFailed
             else (let hex = Hex_encode (take 8 syncMagic);
                       buff' = take location buff @ hex @ drop (location + length hex) buff
                   in Inr (toAngel, take len buff')))"

subsection \<open>The allocator\<close>

text \<open>\<^verbatim>\<open>#define ALLOCATOR_FAILSAFE (1<<22)\<close>\<close>

definition ALLOCATOR_FAILSAFE :: nat where
  "ALLOCATOR_FAILSAFE = push_bit 22 1"

text \<open>
  Modelled from the spec: \<^verbatim>\<open>memory/MallocAllocator\<close> is not among the sources. The arena
  is a ceiling and a counter of the bytes allocated (spec: "MemoryArena:
  { ceiling: 2^22 bytes, allocated: counter }"); an allocation gives a zeroed block and
  ends the process, instead of returning an error, when the cumulative allocation would
  exceed the ceiling (spec, 4.1).
\<close>

record MemoryArena =
  ceiling :: nat
  allocated :: nat

definition MallocAllocator_new :: "nat \<Rightarrow> MemoryArena" where
  "MallocAllocator_new sizeLimit = \<lparr>ceiling = sizeLimit, allocated = 0\<rparr>"

definition allocate :: "nat \<Rightarrow> MemoryArena \<Rightarrow> error + (bytes \<times> MemoryArena)" where
  "allocate n arena =
     (if allocated arena + n > ceiling arena then Inl AllocatorFailsafe
      else Inr (replicate n 0, arena\<lparr>allocated := allocated arena + n\<rparr>))"

text \<open>A sequence of allocations, in order; the blocks handed out so far are collected.\<close>

fun allocate_all :: "nat list \<Rightarrow> MemoryArena \<Rightarrow> error + (bytes list \<times> MemoryArena)" where
  "allocate_all [] arena = Inr ([], arena)"
| "allocate_all (n # ns) arena =
     (case allocate n arena of
        Inl e \<Rightarrow> Inl e
      | Inr (block, arena') \<Rightarrow>
          (case allocate_all ns arena' of
             Inl e \<Rightarrow> Inl e
           | Inr (blocks, arena'') \<Rightarrow> Inr (block # blocks, arena'')))"

subsection \<open>The dispatch chain\<close>

text \<open>
  Modelled from the spec: \<^verbatim>\<open>dht/DHTModuleRegistry\<close> and the modules are not among the
  sources. The registry is an append-only ordered sequence of module names (spec:
  "ModuleRegistration ... in an append-only ordered sequence"); each of the three
  registration functions that Core.c calls appends its module.
\<close>

type_synonym DHTModuleRegistry = "string list"

definition DHTModuleRegistry_new :: DHTModuleRegistry where
  "DHTModuleRegistry_new = []"

definition DHTModuleRegistry_register :: "string \<Rightarrow> DHTModuleRegistry \<Rightarrow> DHTModuleRegistry" where
  "DHTModuleRegistry_register module registry = registry @ [module]"

definition ReplyModule_register :: "DHTModuleRegistry \<Rightarrow> DHTModuleRegistry" where
  "ReplyModule_register registry = DHTModuleRegistry_register ''ReplyModule'' registry"

definition RouterModule_register :: "DHTModuleRegistry \<Rightarrow> DHTModuleRegistry" where
  "RouterModule_register registry = DHTModuleRegistry_register ''RouterModule'' registry"

definition SerializationModule_register :: "DHTModuleRegistry \<Rightarrow> DHTModuleRegistry" where
  "SerializationModule_register registry =
     DHTModuleRegistry_register ''SerializationModule'' registry"

text \<open>
  Modelled from the spec: \<^verbatim>\<open>net/Ducttape\<close> is not among the sources. \<^verbatim>\<open>Ducttape_register\<close>
  is the one later call that is handed the registry (line 271). The spec has three modules
  on the dispatch chain, registered in the order reply-correlation, router, serialization,
  with the serialization module "registered last" (4.4, 8); so \<^verbatim>\<open>Ducttape_register\<close>
  registers no module of its own on the chain and leaves the registry as it is.
\<close>

definition Ducttape_register :: "DHTModuleRegistry \<Rightarrow> DHTModuleRegistry" where
  "Ducttape_register registry = registry"


subsection \<open>Core_main\<close>

text \<open>
  What a run of \<^verbatim>\<open>Core_main\<close> does is recorded as a list of events in program order.
  \<open>Construct f args\<close> is a call of \<^verbatim>\<open>f\<close>, a function of another module that constructs
  or registers a component; its arguments are tagged with the variable of \<^verbatim>\<open>Core_main\<close>
  they are read from: \<open>PrivateKey\<close> is \<^verbatim>\<open>privateKey\<close>, \<open>AddrKey\<close> is \<^verbatim>\<open>addr.key\<close>,
  \<open>AddrIp6\<close> is \<^verbatim>\<open>addr.ip6.bytes\<close>, \<open>Registry\<close> is \<^verbatim>\<open>registry\<close> with the modules it
  holds at the call, \<open>Handle\<close> is a pointer to a component. \<open>EventLoop registry\<close> is the
  call of \<^verbatim>\<open>event_base_dispatch\<close>, with the dispatch chain that the event loop then runs
  on.
\<close>

datatype arg =
    PrivateKey bytes
  | AddrKey bytes
  | AddrIp6 bytes
  | SyncMagic bytes
  | Pass string
  | Fd c_int
  | Size nat
  | Registry DHTModuleRegistry
  | Handle string
  | Name string
  | Flag bool
  | Null

datatype event =
    Randombytes bytes
  | Construct string "arg list"
  | GetData c_int
  | Log_keys string
  | Write c_int string
  | Derive bytes
  | EventLoop DHTModuleRegistry

text \<open>What a run reads from outside: \<^verbatim>\<open>argv\<close>, the 8 bytes of \<^verbatim>\<open>randombytes\<close>, whether
  \<^verbatim>\<open>fdopen\<close> gives a stream, and what \<^verbatim>\<open>Waiter_getData\<close> meets on the inbound pipe.\<close>

record inputs =
  in_argv :: "string list"
  in_random :: bytes
  in_fdopen :: bool
  in_fromAngel :: "error + string"

text \<open>The parts declared outside Core.c that a run depends on.\<close>

record externals =
  ext_INITIAL_CONF_BUFF_SIZE :: nat
  ext_parseDictionary :: "string \<Rightarrow> Dict option"
  ext_scalarmult_base :: "bytes \<Rightarrow> bytes"
  ext_addressForPublicKey :: "bytes \<Rightarrow> bytes"

text \<open>Lines 206 to 221: the allocator, the error handler, the event base and the
  pre-logger.\<close>

definition Core_setup :: "c_int \<Rightarrow> event list" where
  "Core_setup toAngel =
     [Construct ''MallocAllocator_new'' [Size ALLOCATOR_FAILSAFE],
      Construct ''fdopen'' [Fd toAngel, Name ''w''],
      Construct ''FileWriter_new'' [Handle ''toAngelF'', Handle ''alloc''],
      Construct ''WriteErrorHandler_new'' [Handle ''toAngelWriter'', Handle ''alloc''],
      Construct ''event_base_new'' [],
      Construct ''FileWriter_new'' [Handle ''stdout'', Handle ''alloc''],
      Construct ''WriterLog_new'' [Handle ''logWriter'', Handle ''alloc''],
      Construct ''IndirectLog_new'' [Handle ''alloc'']]"

text \<open>Lines 241 to 248: the admin channel and the admin logger.\<close>

definition Core_admin :: "c_int \<Rightarrow> c_int \<Rightarrow> string \<Rightarrow> bytes \<Rightarrow> event list" where
  "Core_admin fromAngel toAngel pass syncMagic =
     [Construct ''Admin_new''
        [Fd fromAngel, Fd toAngel, Handle ''alloc'', Handle ''logger'', Handle ''eventBase'',
         Pass pass, SyncMagic syncMagic],
      Construct ''AdminLog_registerNew'' [Handle ''admin'', Handle ''alloc'']]"

text \<open>Lines 254 to 311: the components built after the identity is derived, and the event
  loop. The registry is threaded through the calls that are handed it: the three
  registration calls and \<^verbatim>\<open>Ducttape_register\<close>.\<close>

definition Core_wiring :: "bytes \<Rightarrow> Address \<Rightarrow> event list" where
  "Core_wiring privateKey addr =
     (let registry0 = DHTModuleRegistry_new;
          registry1 = ReplyModule_register registry0;
          registry2 = RouterModule_register registry1;
          registry3 = SerializationModule_register registry2;
          registry4 = Ducttape_register registry3
      in [Construct ''CryptoAuth_new''
            [Handle ''alloc'', PrivateKey privateKey, Handle ''eventBase'', Handle ''logger''],
          Construct ''SwitchCore_new'' [Handle ''logger'', Handle ''alloc''],
          Construct ''DHTModuleRegistry_new'' [Handle ''alloc''],
          Construct ''ReplyModule_register'' [Registry registry0, Handle ''alloc''],
          Construct ''RouterModule_register''
            [Registry registry1, Handle ''alloc'', AddrKey (addr_key addr), Handle ''eventBase'',
             Handle ''logger'', Handle ''admin''],
          Construct ''SerializationModule_register'' [Registry registry2, Handle ''alloc''],
          Construct ''Ducttape_register''
            [PrivateKey privateKey, Registry registry3, Handle ''router'', Handle ''switchCore'',
             Handle ''eventBase'', Handle ''alloc'', Handle ''logger'', Handle ''admin''],
          Construct ''SwitchPinger_new''
            [Handle ''dt->switchPingerIf'', Handle ''eventBase'', Handle ''logger'',
             Handle ''alloc''],
          Construct ''DefaultInterfaceController_new''
            [Handle ''cryptoAuth'', Handle ''switchCore'', Handle ''router'', Handle ''logger'',
             Handle ''eventBase'', Handle ''sp'', Handle ''alloc''],
          Construct ''SwitchPinger_admin_register''
            [Handle ''sp'', Handle ''admin'', Handle ''alloc''],
          Construct ''UDPInterface_admin_register''
            [Handle ''eventBase'', Handle ''alloc'', Handle ''logger'', Handle ''admin'',
             Handle ''ifController''],
          Construct ''RouterModule_admin_register''
            [Handle ''router'', Handle ''admin'', Handle ''alloc''],
          Construct ''AuthorizedPasswords_init''
            [Handle ''admin'', Handle ''cryptoAuth'', Handle ''alloc''],
          Construct ''Admin_registerFunction''
            [Name ''ping'', Handle ''adminPing'', Handle ''admin'', Flag False, Null,
             Handle ''admin''],
          Construct ''Admin_registerFunction''
            [Name ''Core_exit'', Handle ''adminExit'', Null, Flag True, Null, Handle ''admin''],
          Construct ''Core_admin_register''
            [AddrIp6 (addr_ip6 addr), Handle ''dt'', Handle ''logger'', Handle ''alloc'',
             Handle ''admin'', Handle ''eventBase''],
          Construct ''Security_admin_register''
            [Handle ''alloc'', Handle ''logger'', Handle ''admin''],
          Construct ''alloc->clone''
            [Name ''sizeof(struct MemoryContext)'', Handle ''alloc'', Handle ''alloc'',
             Handle ''admin''],
          Construct ''Admin_registerFunction''
            [Name ''memory'', Handle ''adminMemory'', Handle ''mc'', Flag False, Null,
             Handle ''admin''],
          EventLoop registry4])"

text \<open>
  \<^verbatim>\<open>Core_main\<close>: the events of the run and its end, an error that ended the process or the
  value returned after the event loop.
\<close>

definition Core_main :: "externals \<Rightarrow> inputs \<Rightarrow> event list \<times> (error + int)" where
  "Core_main ext inp =
     (let syncMagic = in_random inp;
          t0 = [Randombytes syncMagic]
      in case Core_args (in_argv inp) of
           Inl e \<Rightarrow> (t0, Inl e)
         | Inr (toAngel, fromAngel) \<Rightarrow>
             if \<not> in_fdopen inp
             then (t0 @ [Construct ''MallocAllocator_new'' [Size ALLOCATOR_FAILSAFE],
                         Construct ''fdopen'' [Fd toAngel, Name ''w'']],
                   Inl AssertionFailed)
             else
               (let t1 = t0 @ Core_setup toAngel @ [GetData fromAngel]
                in case getInitialConfig (ext_INITIAL_CONF_BUFF_SIZE ext)
                          (ext_parseDictionary ext) (in_fromAngel inp) of
                     Inl e \<Rightarrow> (t1, Inl e)
                   | Inr config \<Rightarrow>
                       (case Core_config_keys config of
                          Inl e \<Rightarrow> (t1, Inl e)
                        | Inr (pass, privateKeyHex) \<Rightarrow>
                            (case Core_config_privateKey privateKeyHex of
                               Inl e \<Rightarrow> (t1 @ [Log_keys pass], Inl e)
                             | Inr privateKey \<Rightarrow>
                                 (case sendResponse toAngel syncMagic of
                                    Inl e \<Rightarrow> (t1 @ [Log_keys pass], Inl e)
                                  | Inr (fd, written) \<Rightarrow>
                                      (let t2 = t1 @ [Log_keys pass, Write fd written]
                                              @ Core_admin fromAngel toAngel pass syncMagic
                                              @ [Derive privateKey]
                                       in case parsePrivateKey (ext_scalarmult_base ext)
                                                 (ext_addressForPublicKey ext) privateKey of
                                            Inl e \<Rightarrow> (t2, Inl e)
                                          | Inr addr \<Rightarrow>
                                              (t2 @ Core_wiring privateKey addr, Inr 0)))))))"

subsection \<open>Observations on the events of a run\<close>


fun is_identity :: "arg \<Rightarrow> bool" where
  "is_identity (AddrKey k) = True"
| "is_identity (AddrIp6 a) = True"
| "is_identity a = False"


text \<open>The functions of other modules that are handed a part of the derived \<^verbatim>\<open>addr\<close>.\<close>

definition identity_receivers :: "event list \<Rightarrow> string list" where
  "identity_receivers trace = [f. Construct f args \<leftarrow> trace, list_ex is_identity args]"

text \<open>The arguments of the calls of \<open>f\<close>.\<close>

definition calls_of :: "string \<Rightarrow> event list \<Rightarrow> arg list list" where
  "calls_of f trace = [args. Construct g args \<leftarrow> trace, g = f]"

fun is_Write :: "event \<Rightarrow> bool" where
  "is_Write (Write fd buff) = True"
| "is_Write ev = False"

fun is_Derive :: "event \<Rightarrow> bool" where
  "is_Derive (Derive k) = True"
| "is_Derive ev = False"

text \<open>The components that \<^verbatim>\<open>Core_main\<close> builds from line 254 on: the crypto-session layer,
  the switch, the registry and its modules, the router, and what follows them.\<close>

definition module_constructors :: "string list" where
  "module_constructors =
     [''CryptoAuth_new'', ''SwitchCore_new'', ''DHTModuleRegistry_new'',
      ''ReplyModule_register'', ''RouterModule_register'', ''SerializationModule_register'',
      ''Ducttape_register'', ''SwitchPinger_new'', ''DefaultInterfaceController_new'',
      ''SwitchPinger_admin_register'', ''UDPInterface_admin_register'',
      ''RouterModule_admin_register'', ''AuthorizedPasswords_init'', ''Admin_registerFunction'',
      ''Core_admin_register'', ''Security_admin_register'']"

fun is_module_construction :: "event \<Rightarrow> bool" where
  "is_module_construction (Construct f args) = (f \<in> set module_constructors)"
| "is_module_construction ev = False"

fun is_admin_construction :: "event \<Rightarrow> bool" where
  "is_admin_construction (Construct f args) = (f \<in> set [''Admin_new'', ''AdminLog_registerNew''])"
| "is_admin_construction ev = False"



text \<open>The invocation in the words of the spec: exactly two arguments beyond the program
  name, both numeric and both parsing to a non-zero integer.\<close>

definition is_numeric :: "string \<Rightarrow> bool" where
  "is_numeric s = (s \<noteq> [] \<and> list_all isdigit s)"

definition spec_invocation_ok :: "string list \<Rightarrow> bool" where
  "spec_invocation_ok argv =
     (length argv = 3 \<and> is_numeric (argv ! 1) \<and> is_numeric (argv ! 2)
      \<and> atoi (argv ! 1) \<noteq> 0 \<and> atoi (argv ! 2) \<noteq> 0)"

text \<open>\<open>not_before P Q trace\<close>: no event with \<open>Q\<close> stands before the first event with \<open>P\<close>;
  where no event has \<open>P\<close>, none has \<open>Q\<close>.\<close>

fun not_before :: "(event \<Rightarrow> bool) \<Rightarrow> (event \<Rightarrow> bool) \<Rightarrow> event list \<Rightarrow> bool" where
  "not_before P Q [] = True"
| "not_before P Q (ev # evs) = (if P ev then True else \<not> Q ev \<and> not_before P Q evs)"

text \<open>The requirement on the configuration in the words of the spec: a \<^verbatim>\<open>privateKey\<close>
  string of exactly 64 hex characters, and an \<^verbatim>\<open>admin\<close> dictionary with a \<^verbatim>\<open>pass\<close>
  string.\<close>

definition config_valid :: "Dict \<Rightarrow> bool" where
  "config_valid config =
     ((case map_of config ''privateKey'' of
         Some (String_OBJ hex) \<Rightarrow> length hex = 64 \<and> list_all isxdigit hex
       | _ \<Rightarrow> False)
      \<and> (case map_of config ''admin'' of
            Some (Dict_OBJ adminConf) \<Rightarrow>
              (case map_of adminConf ''pass'' of Some (String_OBJ pass) \<Rightarrow> True | _ \<Rightarrow> False)
          | _ \<Rightarrow> False))"

text \<open>The acknowledgement of the spec for a sync magic: the wire form of
  \<^verbatim>\<open>{"angel": {"syncMagic": <hex>}}\<close>.\<close>

definition acknowledgement :: "bytes \<Rightarrow> string" where
  "acknowledgement syncMagic = ''d5:angeld9:syncMagic16:'' @ Hex_encode syncMagic @ ''ee''"

text \<open>The events of a run up to and with the derivation of the identity: lines 194 to 253,
  with \<open>w\<close> the bytes that \<^verbatim>\<open>sendResponse\<close> writes.\<close>

definition Core_prefix ::
  "inputs \<Rightarrow> c_int \<Rightarrow> c_int \<Rightarrow> string \<Rightarrow> string \<Rightarrow> bytes \<Rightarrow> event list" where
  "Core_prefix inp toAngel fromAngel pass w privateKey =
     [Randombytes (in_random inp)] @ Core_setup toAngel
       @ [GetData fromAngel, Log_keys pass, Write toAngel w]
       @ Core_admin fromAngel toAngel pass (in_random inp) @ [Derive privateKey]"

subsection \<open>A concrete run\<close>

text \<open>
  Stand-ins for the external parts, to run the model on concrete input: a 1024-byte
  configuration buffer, the benc parser above, and two byte functions in place of the
  scalar multiplication and of the address hash. The first address function gives
  addresses that begin with \<^verbatim>\<open>0xFC\<close>, the second one addresses that do not.
\<close>

definition example_externals :: externals where
  "example_externals =
     \<lparr>ext_INITIAL_CONF_BUFF_SIZE = 1024,
      ext_parseDictionary = StandardBencSerializer_parseDictionary,
      ext_scalarmult_base = map (\<lambda>b. b + 1),
      ext_addressForPublicKey = (\<lambda>k. 0xFC # take 15 k)\<rparr>"

definition example_externals_outside :: externals where
  "example_externals_outside =
     \<lparr>ext_INITIAL_CONF_BUFF_SIZE = 1024,
      ext_parseDictionary = StandardBencSerializer_parseDictionary,
      ext_scalarmult_base = map (\<lambda>b. b + 1),
      ext_addressForPublicKey = (\<lambda>k. 0x20 # take 15 k)\<rparr>"

definition example_key_hex :: string where
  "example_key_hex = ''000102030405060708090a0b0c0d0e0f101112131415161718191A1B1C1D1E1F''"

definition example_key :: bytes where
  "example_key =
     [0, 1, 2, 3, 4, 5, 6, 7, 8, 9, 10, 11, 12, 13, 14, 15,
      16, 17, 18, 19, 20, 21, 22, 23, 24, 25, 26, 27, 28, 29, 30, 31]"

definition example_config :: Dict where
  "example_config =
     [(''admin'', Dict_OBJ [(''pass'', String_OBJ ''abc'')]),
      (''privateKey'', String_OBJ example_key_hex)]"

definition example_blob :: string where
  "example_blob = ''d5:admind4:pass3:abce10:privateKey64:'' @ example_key_hex @ ''e''"

definition example_magic :: bytes where
  "example_magic = [0x01, 0x23, 0x45, 0x67, 0x89, 0xAB, 0xCD, 0xEF]"

definition example_inputs :: inputs where
  "example_inputs =
     \<lparr>in_argv = [''cjdns'', ''core'', ''3'', ''4''],
      in_random = example_magic,
      in_fdopen = True,
      in_fromAngel = Inr example_blob\<rparr>"

text \<open>Configurations that the core refuses: a key of 63 hex characters, and a blob that
  stops in the middle of a value.\<close>

definition example_blob_short :: string where
  "example_blob_short = ''d5:admind4:pass3:abce10:privateKey63:'' @ tl example_key_hex @ ''e''"

definition example_config_short :: Dict where
  "example_config_short =
     [(''admin'', Dict_OBJ [(''pass'', String_OBJ ''abc'')]),
      (''privateKey'', String_OBJ (tl example_key_hex))]"

definition example_blob_truncated :: string where
  "example_blob_truncated = ''d5:admind4:pass3:abce10:privateKey64:0001''"

text \<open>The same externals with a configuration buffer of exactly the size of the
  well-formed blob.\<close>

definition example_externals_exact :: externals where
  "example_externals_exact =
     example_externals\<lparr>ext_INITIAL_CONF_BUFF_SIZE := length example_blob\<rparr>"

section \<open>Lemmas on the parts\<close>

lemma strstr_buff: "strstr sendResponse_buff sendResponse_placeholder = Some 23"
  by (simp add: strstr_def c_str_def sendResponse_buff_def sendResponse_placeholder_def)

lemma strlen_buff: "strlen sendResponse_buff = 41"
  by (simp add: strlen_def c_str_def sendResponse_buff_def sendResponse_placeholder_def)

lemma length_Hex_encode: "length (Hex_encode bs) = 2 * length bs"
  by (induction bs) (simp_all add: Hex_encode_def Hex_encodeByte_def)

lemma sendResponse_eq:
  assumes "length syncMagic = 8"
  shows "sendResponse toAngel syncMagic = Inr (toAngel, acknowledgement syncMagic)"
  using assms
  by (simp add: sendResponse_def strstr_buff strlen_buff Let_def length_Hex_encode
        acknowledgement_def)
     (simp add: sendResponse_buff_def sendResponse_placeholder_def)

lemma sendResponse_Inr: "\<exists>w. sendResponse toAngel syncMagic = Inr (toAngel, w)"
  by (simp add: sendResponse_def strstr_buff strlen_buff Let_def)

lemma Core_main_derive:
  assumes "Core_args (in_argv inp) = Inr (toAngel, fromAngel)"
    and "in_fdopen inp"
    and "getInitialConfig (ext_INITIAL_CONF_BUFF_SIZE ext) (ext_parseDictionary ext)
           (in_fromAngel inp) = Inr config"
    and "Core_config config = Inr (pass, pk)"
    and "sendResponse toAngel (in_random inp) = Inr (toAngel, w)"
  shows "Core_main ext inp =
     (case parsePrivateKey (ext_scalarmult_base ext) (ext_addressForPublicKey ext) pk of
        Inl e \<Rightarrow> (Core_prefix inp toAngel fromAngel pass w pk, Inl e)
      | Inr addr \<Rightarrow> (Core_prefix inp toAngel fromAngel pass w pk @ Core_wiring pk addr, Inr 0))"
  using assms
  by (auto simp: Core_main_def Core_config_def Core_prefix_def Let_def split: sum.splits)

lemma Core_main_no_config:
  assumes "Core_args (in_argv inp) = Inr (toAngel, fromAngel)"
    and "in_fdopen inp"
    and "getInitialConfig (ext_INITIAL_CONF_BUFF_SIZE ext) (ext_parseDictionary ext)
           (in_fromAngel inp) = Inl e"
  shows "Core_main ext inp =
           ([Randombytes (in_random inp)] @ Core_setup toAngel @ [GetData fromAngel], Inl e)"
  using assms by (simp add: Core_main_def)

lemma Core_main_bad_config:
  assumes "Core_args (in_argv inp) = Inr (toAngel, fromAngel)"
    and "in_fdopen inp"
    and "getInitialConfig (ext_INITIAL_CONF_BUFF_SIZE ext) (ext_parseDictionary ext)
           (in_fromAngel inp) = Inr config"
    and "Core_config config = Inl e"
  shows "\<exists>logged. (logged = [] \<or> (\<exists>pass. logged = [Log_keys pass]))
           \<and> Core_main ext inp =
               ([Randombytes (in_random inp)] @ Core_setup toAngel @ [GetData fromAngel] @ logged,
                Inl e)"
  using assms
  by (auto simp: Core_main_def Core_config_def split: sum.splits)

text \<open>Every run is one of six: it ends at the argument check, at \<^verbatim>\<open>fdopen\<close>, in
  \<^verbatim>\<open>getInitialConfig\<close>, at the required keys, in \<^verbatim>\<open>parsePrivateKey\<close>, or it reaches the
  event loop.\<close>

lemma Core_main_cases:
  obtains
    (args) e where "Core_args (in_argv inp) = Inl e"
      and "Core_main ext inp = ([Randombytes (in_random inp)], Inl e)"
  | (fdopen) toAngel fromAngel where "Core_args (in_argv inp) = Inr (toAngel, fromAngel)"
      and "\<not> in_fdopen inp"
      and "Core_main ext inp =
             ([Randombytes (in_random inp),
               Construct ''MallocAllocator_new'' [Size ALLOCATOR_FAILSAFE],
               Construct ''fdopen'' [Fd toAngel, Name ''w'']], Inl AssertionFailed)"
  | (read) toAngel fromAngel e where "Core_args (in_argv inp) = Inr (toAngel, fromAngel)"
      and "in_fdopen inp"
      and "getInitialConfig (ext_INITIAL_CONF_BUFF_SIZE ext) (ext_parseDictionary ext)
             (in_fromAngel inp) = Inl e"
      and "Core_main ext inp =
             ([Randombytes (in_random inp)] @ Core_setup toAngel @ [GetData fromAngel], Inl e)"
  | (keys) toAngel fromAngel config e logged where
        "Core_args (in_argv inp) = Inr (toAngel, fromAngel)"
      and "in_fdopen inp"
      and "getInitialConfig (ext_INITIAL_CONF_BUFF_SIZE ext) (ext_parseDictionary ext)
             (in_fromAngel inp) = Inr config"
      and "Core_config config = Inl e"
      and "logged = [] \<or> (\<exists>pass. logged = [Log_keys pass])"
      and "Core_main ext inp =
             ([Randombytes (in_random inp)] @ Core_setup toAngel @ [GetData fromAngel] @ logged,
              Inl e)"
  | (derive) toAngel fromAngel config pass pk w e where
        "Core_args (in_argv inp) = Inr (toAngel, fromAngel)"
      and "in_fdopen inp"
      and "getInitialConfig (ext_INITIAL_CONF_BUFF_SIZE ext) (ext_parseDictionary ext)
             (in_fromAngel inp) = Inr config"
      and "Core_config config = Inr (pass, pk)"
      and "sendResponse toAngel (in_random inp) = Inr (toAngel, w)"
      and "parsePrivateKey (ext_scalarmult_base ext) (ext_addressForPublicKey ext) pk = Inl e"
      and "Core_main ext inp = (Core_prefix inp toAngel fromAngel pass w pk, Inl e)"
  | (loop) toAngel fromAngel config pass pk w addr where
        "Core_args (in_argv inp) = Inr (toAngel, fromAngel)"
      and "in_fdopen inp"
      and "getInitialConfig (ext_INITIAL_CONF_BUFF_SIZE ext) (ext_parseDictionary ext)
             (in_fromAngel inp) = Inr config"
      and "Core_config config = Inr (pass, pk)"
      and "sendResponse toAngel (in_random inp) = Inr (toAngel, w)"
      and "parsePrivateKey (ext_scalarmult_base ext) (ext_addressForPublicKey ext) pk = Inr addr"
      and "Core_main ext inp =
             (Core_prefix inp toAngel fromAngel pass w pk @ Core_wiring pk addr, Inr 0)"
proof (cases "Core_args (in_argv inp)")
  case (Inl e)
  then have "Core_main ext inp = ([Randombytes (in_random inp)], Inl e)"
    by (simp add: Core_main_def)
  with Inl show ?thesis by (rule args)
next
  case (Inr p)
  obtain toAngel fromAngel where p: "p = (toAngel, fromAngel)" by (cases p)
  note a = Inr[unfolded p]
  show ?thesis
  proof (cases "in_fdopen inp")
    case False
    with a have "Core_main ext inp =
             ([Randombytes (in_random inp),
               Construct ''MallocAllocator_new'' [Size ALLOCATOR_FAILSAFE],
               Construct ''fdopen'' [Fd toAngel, Name ''w'']], Inl AssertionFailed)"
      by (simp add: Core_main_def)
    with a False show ?thesis by (rule fdopen)
  next
    case fd: True
    show ?thesis
    proof (cases "getInitialConfig (ext_INITIAL_CONF_BUFF_SIZE ext) (ext_parseDictionary ext)
             (in_fromAngel inp)")
      case (Inl e)
      show ?thesis by (rule read[OF a fd Inl Core_main_no_config[OF a fd Inl]])
    next
      case cfg: (Inr config)
      show ?thesis
      proof (cases "Core_config config")
        case (Inl e)
        from Core_main_bad_config[OF a fd cfg Inl] obtain logged where
          "logged = [] \<or> (\<exists>pass. logged = [Log_keys pass])"
          "Core_main ext inp =
             ([Randombytes (in_random inp)] @ Core_setup toAngel @ [GetData fromAngel] @ logged,
              Inl e)"
          by blast
        with a fd cfg Inl show ?thesis by (rule keys)
      next
        case (Inr q)
        obtain pass pk where q: "q = (pass, pk)" by (cases q)
        note cc = Inr[unfolded q]
        obtain w where w: "sendResponse toAngel (in_random inp) = Inr (toAngel, w)"
          using sendResponse_Inr by blast
        note m = Core_main_derive[OF a fd cfg cc w, of ]
        show ?thesis
        proof (cases "parsePrivateKey (ext_scalarmult_base ext) (ext_addressForPublicKey ext) pk")
          case (Inl e)
          with m have "Core_main ext inp = (Core_prefix inp toAngel fromAngel pass w pk, Inl e)"
            by simp
          with a fd cfg cc w Inl show ?thesis by (rule derive)
        next
          case (Inr addr)
          with m have "Core_main ext inp =
             (Core_prefix inp toAngel fromAngel pass w pk @ Core_wiring pk addr, Inr 0)"
            by simp
          with a fd cfg cc w Inr show ?thesis by (rule loop)
        qed
      qed
    qed
  qed
qed



lemma calls_of_append: "calls_of f (xs @ ys) = calls_of f xs @ calls_of f ys"
  by (simp add: calls_of_def)



lemma identity_receivers_prefix:
  "identity_receivers (Core_prefix inp toAngel fromAngel pass w pk) = []"
  by (simp add: identity_receivers_def Core_prefix_def Core_setup_def Core_admin_def)


lemma filter_Derive_prefix:
  "filter is_Derive (Core_prefix inp toAngel fromAngel pass w pk) = [Derive pk]"
  by (simp add: Core_prefix_def Core_setup_def Core_admin_def)

lemma filter_Derive_wiring: "filter is_Derive (Core_wiring pk addr) = []"
  by (simp add: Core_wiring_def Let_def)

lemma filter_Write_prefix:
  "filter is_Write (Core_prefix inp toAngel fromAngel pass w pk) = [Write toAngel w]"
  by (simp add: Core_prefix_def Core_setup_def Core_admin_def)

lemma filter_Write_wiring: "filter is_Write (Core_wiring pk addr) = []"
  by (simp add: Core_wiring_def Let_def)

lemma filter_Write_setup: "filter is_Write (Core_setup toAngel) = []"
  by (simp add: Core_setup_def)

lemma parsePrivateKey_eq:
  "parsePrivateKey sm ac pk =
     (if ac (sm pk) ! 0 = 0xFC then Inr \<lparr>addr_key = sm pk, addr_ip6 = ac (sm pk)\<rparr>
      else Inl (Exception (- 1) ''Ip address outside of the FC00/8 range, invalid private key.''))"
  by (simp add: parsePrivateKey_def Let_def Except_raise_def)

lemma example_getInitialConfig:
  "getInitialConfig 1024 StandardBencSerializer_parseDictionary (Inr example_blob)
     = Inr example_config"
  by code_simp

lemma example_Core_config: "Core_config example_config = Inr (''abc'', example_key)"
  by code_simp

lemma example_Core_args: "Core_args [''cjdns'', ''core'', ''3'', ''4''] = Inr (3, 4)"
  by code_simp

lemma Hex_decode_sound:
  "Hex_decode s = Some bs \<Longrightarrow> list_all isxdigit s \<and> length s = 2 * length bs"
proof (induction s arbitrary: bs rule: Hex_decode.induct)
  case 1
  then show ?case by simp
next
  case (2 c)
  then show ?case by simp
next
  case (3 h l cs)
  from "3.prems" obtain a b r where
    d: "Hex_digit h = Some a" "Hex_digit l = Some b" "Hex_decode cs = Some r"
      and bs: "bs = (push_bit 4 a OR b) # r"
    by (auto split: option.splits)
  from "3.IH"[OF d] d(1,2) bs show ?case by (simp add: isxdigit_def)
qed

lemma Hex_decode_complete:
  "even (length s) \<Longrightarrow> list_all isxdigit s \<Longrightarrow> \<exists>bs. Hex_decode s = Some bs"
proof (induction s rule: Hex_decode.induct)
  case 1
  then show ?case by simp
next
  case (2 c)
  then show ?case by simp
next
  case (3 h l cs)
  from "3.prems" obtain a b where d: "Hex_digit h = Some a" "Hex_digit l = Some b"
    by (auto simp: isxdigit_def)
  from "3.prems" have "even (length cs)" "list_all isxdigit cs" by simp_all
  with "3.IH"[OF d] obtain r where "Hex_decode cs = Some r" by blast
  with d show ?case by simp
qed

lemma Hex_decode_length: "Hex_decode s = Some bs \<Longrightarrow> length s = 2 * length bs"
  using Hex_decode_sound by blast

lemma config_valid_iff:
  "config_valid config \<longleftrightarrow>
     (\<exists>hex adminConf pass.
        map_of config ''privateKey'' = Some (String_OBJ hex) \<and> length hex = 64
        \<and> list_all isxdigit hex
        \<and> map_of config ''admin'' = Some (Dict_OBJ adminConf)
        \<and> map_of adminConf ''pass'' = Some (String_OBJ pass))"
proof -
  have s: "(case y of String_OBJ pass \<Rightarrow> True | _ \<Rightarrow> False) \<longleftrightarrow> (\<exists>pass. y = String_OBJ pass)"
    for y by (cases y) simp_all
  have t: "(case y of String_OBJ hex \<Rightarrow> length hex = 64 \<and> list_all isxdigit hex | _ \<Rightarrow> False)
             \<longleftrightarrow> (\<exists>hex. y = String_OBJ hex \<and> length hex = 64 \<and> list_all isxdigit hex)"
    for y by (cases y) simp_all
  show ?thesis
    unfolding config_valid_def
    by (cases "map_of config ''privateKey''"; cases "map_of config ''admin''")
       (auto simp: s t split: option.splits Object.splits)
qed

lemma Core_config_Inr_iff:
  "Core_config config = Inr (pass, pk) \<longleftrightarrow>
     (\<exists>hex adminConf.
        map_of config ''privateKey'' = Some (String_OBJ hex) \<and> length hex = 64
        \<and> Hex_decode hex = Some pk
        \<and> map_of config ''admin'' = Some (Dict_OBJ adminConf)
        \<and> map_of adminConf ''pass'' = Some (String_OBJ pass))"
  by (auto simp: Core_config_def Core_config_keys_def Core_config_privateKey_def
        Dict_getString_def Dict_getDict_def Except_raise_def Let_def
        dest: Hex_decode_length split: option.splits Object.splits)

lemma Core_config_valid:
  "config_valid config \<longleftrightarrow> (\<exists>pass pk. Core_config config = Inr (pass, pk))"
proof
  assume "config_valid config"
  then obtain hex adminConf pass where
    h: "map_of config ''privateKey'' = Some (String_OBJ hex)" "length hex = 64"
       "list_all isxdigit hex"
       "map_of config ''admin'' = Some (Dict_OBJ adminConf)"
       "map_of adminConf ''pass'' = Some (String_OBJ pass)"
    unfolding config_valid_iff by blast
  from h(2,3) obtain pk where "Hex_decode hex = Some pk"
    using Hex_decode_complete[of hex] by auto
  with h have "Core_config config = Inr (pass, pk)"
    unfolding Core_config_Inr_iff by blast
  then show "\<exists>pass pk. Core_config config = Inr (pass, pk)" by blast
next
  assume "\<exists>pass pk. Core_config config = Inr (pass, pk)"
  then obtain pass pk hex adminConf where
    h: "map_of config ''privateKey'' = Some (String_OBJ hex)" "length hex = 64"
       "Hex_decode hex = Some pk"
       "map_of config ''admin'' = Some (Dict_OBJ adminConf)"
       "map_of adminConf ''pass'' = Some (String_OBJ pass)"
    unfolding Core_config_Inr_iff by blast
  from h(3) have "list_all isxdigit hex" using Hex_decode_sound by blast
  with h show "config_valid config" unfolding config_valid_iff by blast
qed

lemma Core_config_Inl:
  "Core_config config = Inl e \<Longrightarrow>
     e = Exception (- 1) ''Expected 'pass' and 'privateKey' in configuration.''
   \<or> e = Exception (- 1) ''privateKey must be 64 bytes of hex.''"
  by (auto simp: Core_config_def Core_config_keys_def Core_config_privateKey_def Let_def
        Except_raise_def split: option.splits if_splits sum.splits)

lemma Core_config_length: "Core_config config = Inr (pass, pk) \<Longrightarrow> length pk = 32"
  by (auto simp: Core_config_Inr_iff dest: Hex_decode_length)

lemma nibble_hi: "unat (drop_bit 4 (b :: byte)) < 16"
proof -
  have "unat b < 256" using unsigned_less[of b] by simp
  then show ?thesis by (simp add: drop_bit_eq_div unat_div)
qed

lemma nibble_lo: "unat ((b :: byte) AND 0xF) < 16"
proof -
  have "b AND 0xF \<le> 0xF" by (rule word_and_le1)
  then have "unat (b AND 0xF) \<le> unat (0xF :: byte)" by (simp only: word_le_nat_alt)
  then show ?thesis by simp
qed

lemma hexEntities_nth: "n < 16 \<Longrightarrow> hexEntities ! n \<in> set hexEntities"
  by (rule nth_mem) (simp add: hexEntities_def)

lemma Hex_encodeByte_lower: "list_all (\<lambda>c. c \<in> set hexEntities) (Hex_encodeByte b)"
  using nibble_hi nibble_lo by (simp add: Hex_encodeByte_def hexEntities_nth)

lemma Hex_encode_lower: "list_all (\<lambda>c. c \<in> set hexEntities) (Hex_encode bs)"
  by (induction bs) (simp_all add: Hex_encode_def Hex_encodeByte_lower)

lemma parse_ack:
  assumes "length h = 16"
  shows "StandardBencSerializer_parseDictionary (''d5:angeld9:syncMagic16:'' @ h @ ''ee'')
     = Some [(''angel'', Dict_OBJ [(''syncMagic'', String_OBJ h)])]"
  using assms
  by (simp add: StandardBencSerializer_parseDictionary_def eval_nat_numeral parseString_def isdigit_def)

lemma hd_Core_main: "hd (fst (Core_main ext inp)) = Randombytes (in_random inp)"
  by (cases rule: Core_main_cases[of inp ext]) (simp_all add: Core_prefix_def)

lemma getInitialConfig_Inr_iff:
  "getInitialConfig n parse fromAngel = Inr config \<longleftrightarrow>
     (\<exists>delivered. fromAngel = Inr delivered \<and> length delivered < n
        \<and> parse (delivered @ replicate (n - length delivered) (CHR 0x00)) = Some config)"
  by (cases fromAngel)
     (auto simp: getInitialConfig_def Waiter_getData_def Let_def Except_raise_def min_def
        split: option.splits)

lemma getInitialConfig_full:
  "n \<le> length delivered \<Longrightarrow>
     getInitialConfig n parse (Inr delivered)
       = Inl (Exception (- 1) ''initial config exceeds INITIAL_CONF_BUFF_SIZE'')"
  by (simp add: getInitialConfig_def Waiter_getData_def Let_def Except_raise_def)

lemma getInitialConfig_unparsed:
  "length delivered < n \<Longrightarrow>
   parse (delivered @ replicate (n - length delivered) (CHR 0x00)) = None \<Longrightarrow>
     getInitialConfig n parse (Inr delivered)
       = Inl (Exception (- 1) ''Failed to parse initial configuration.'')"
  by (simp add: getInitialConfig_def Waiter_getData_def Let_def Except_raise_def)

lemma example_ack: "acknowledgement example_magic = ''d5:angeld9:syncMagic16:0123456789abcdefee''"
  by code_simp

lemma example_getInitialConfig_short:
  "getInitialConfig 1024 StandardBencSerializer_parseDictionary (Inr example_blob_short)
     = Inr example_config_short"
  by code_simp

lemma example_Core_config_short:
  "Core_config example_config_short = Inl (Exception (- 1) ''privateKey must be 64 bytes of hex.'')"
  by code_simp

lemma example_truncated_unparsed:
  "StandardBencSerializer_parseDictionary
     (example_blob_truncated @ replicate (1024 - length example_blob_truncated) (CHR 0x00)) = None"
  by code_simp

lemma example_blob_parses:
  "StandardBencSerializer_parseDictionary example_blob = Some example_config"
  by code_simp

lemma allocate_all_fits:
  "allocated arena + sum_list ns \<le> ceiling arena \<Longrightarrow>
     allocate_all ns arena
       = Inr (map (\<lambda>n. replicate n 0) ns, arena\<lparr>allocated := allocated arena + sum_list ns\<rparr>)"
proof (induction ns arbitrary: arena)
  case Nil
  then show ?case by simp
next
  case (Cons n ns)
  let ?a = "arena\<lparr>allocated := allocated arena + n\<rparr>"
  from Cons.prems have "allocated ?a + sum_list ns \<le> ceiling ?a" by simp
  from Cons.IH[OF this] Cons.prems show ?case
    by (simp add: allocate_def add.assoc)
qed

lemma allocate_all_append:
  "allocate_all (ns @ ms) arena =
     (case allocate_all ns arena of
        Inl e \<Rightarrow> Inl e
      | Inr (blocks, arena') \<Rightarrow>
          (case allocate_all ms arena' of
             Inl e \<Rightarrow> Inl e
           | Inr (blocks', arena'') \<Rightarrow> Inr (blocks @ blocks', arena'')))"
  by (induction ns arbitrary: arena) (auto split: sum.splits)


lemma example_run:
  "Core_main example_externals example_inputs =
     (Core_prefix example_inputs 3 4 ''abc'' (acknowledgement example_magic) example_key
        @ Core_wiring example_key
            \<lparr>addr_key = map (\<lambda>b. b + 1) example_key,
             addr_ip6 = 0xFC # take 15 (map (\<lambda>b. b + 1) example_key)\<rparr>,
      Inr 0)"
  using Core_main_derive[of example_inputs 3 4 example_externals example_config "''abc''"
          example_key "acknowledgement example_magic"]
        sendResponse_eq[of example_magic 3]
  by (simp add: example_inputs_def example_externals_def example_Core_args
        example_getInitialConfig example_Core_config parsePrivateKey_eq)
     (simp add: example_magic_def)

lemma example_run_outside:
  "Core_main example_externals_outside example_inputs =
     (Core_prefix example_inputs 3 4 ''abc'' (acknowledgement example_magic) example_key,
      Inl (Exception (- 1) ''Ip address outside of the FC00/8 range, invalid private key.''))"
  using Core_main_derive[of example_inputs 3 4 example_externals_outside example_config "''abc''"
          example_key "acknowledgement example_magic"]
        sendResponse_eq[of example_magic 3]
  by (simp add: example_inputs_def example_externals_outside_def example_Core_args
        example_getInitialConfig example_Core_config parsePrivateKey_eq)
     (simp add: example_magic_def)





lemma atoi_in_range:
  assumes "- (2 ^ 31) \<le> decimal_value s" and "decimal_value s < 2 ^ 31"
  shows "sint (atoi s) = decimal_value s"
proof -
  from assms have "strtol s = decimal_value s"
    by (simp add: strtol_def LONG_MAX_def LONG_MIN_def Let_def)
  then have "sint (atoi s) = signed_take_bit 31 (decimal_value s)"
    by (simp add: atoi_def sint_sbintrunc')
  also from assms have "\<dots> = decimal_value s"
    by (simp add: signed_take_bit_int_eq_self)
  finally show ?thesis .
qed

lemma atoi_zero_in_range:
  assumes "- (2 ^ 31) \<le> decimal_value s" and "decimal_value s < 2 ^ 31"
  shows "atoi s = 0 \<longleftrightarrow> decimal_value s = 0"
  using atoi_in_range[OF assms] by (metis signed_eq_0_iff)





section \<open>The claims\<close>

text \<open>
  C1. For every private key that the configuration check hands on (32 bytes),
  \<^verbatim>\<open>parsePrivateKey\<close> computes the public key with the fixed-base scalar multiplication and
  the address with the address function of the public key. When byte 0 of the address is
  not \<^verbatim>\<open>0xFC\<close> the run ends with the fatal error of \<^verbatim>\<open>parsePrivateKey\<close>: no later
  component is constructed and no function of another module is handed the public key or
  the address. When byte 0 is \<^verbatim>\<open>0xFC\<close> the derivation succeeds, the run reaches the event
  loop, and the router and the admin registration are handed the derived public key and
  address. In both cases the derivation is run once, on that key.
\<close>

theorem identity_derivation:
  assumes "Core_args (in_argv inp) = Inr (toAngel, fromAngel)"
    and "in_fdopen inp"
    and "getInitialConfig (ext_INITIAL_CONF_BUFF_SIZE ext) (ext_parseDictionary ext)
           (in_fromAngel inp) = Inr config"
    and "Core_config config = Inr (pass, privateKey)"
    and "publicKey = ext_scalarmult_base ext privateKey"
    and "address = ext_addressForPublicKey ext publicKey"
  shows "parsePrivateKey (ext_scalarmult_base ext) (ext_addressForPublicKey ext) privateKey =
           (if address ! 0 = 0xFC then Inr \<lparr>addr_key = publicKey, addr_ip6 = address\<rparr>
            else Inl (Exception (- 1)
                   ''Ip address outside of the FC00/8 range, invalid private key.''))
       \<and> (if address ! 0 = 0xFC
          then snd (Core_main ext inp) = Inr 0
             \<and> calls_of ''RouterModule_register'' (fst (Core_main ext inp)) =
                 [[Registry [''ReplyModule''], Handle ''alloc'', AddrKey publicKey,
                   Handle ''eventBase'', Handle ''logger'', Handle ''admin'']]
             \<and> calls_of ''Core_admin_register'' (fst (Core_main ext inp)) =
                 [[AddrIp6 address, Handle ''dt'', Handle ''logger'', Handle ''alloc'',
                   Handle ''admin'', Handle ''eventBase'']]
          else snd (Core_main ext inp) =
                 Inl (Exception (- 1)
                   ''Ip address outside of the FC00/8 range, invalid private key.'')
             \<and> identity_receivers (fst (Core_main ext inp)) = []
             \<and> \<not> list_ex is_module_construction (fst (Core_main ext inp)))
       \<and> filter is_Derive (fst (Core_main ext inp)) = [Derive privateKey]"
proof -
  obtain w where w: "sendResponse toAngel (in_random inp) = Inr (toAngel, w)"
    using sendResponse_Inr by blast
  note m = Core_main_derive[OF assms(1-4) w]
  let ?derive = "parsePrivateKey (ext_scalarmult_base ext) (ext_addressForPublicKey ext)"
  let ?addr = "\<lparr>addr_key = publicKey, addr_ip6 = address\<rparr>"
  let ?pre = "Core_prefix inp toAngel fromAngel pass w privateKey"
  note p = parsePrivateKey_eq[of "ext_scalarmult_base ext" "ext_addressForPublicKey ext"
             privateKey]
  show ?thesis
  proof (cases "address ! 0 = 0xFC")
    case True
    with p assms(5,6) have pp: "?derive privateKey = Inr ?addr" by simp
    have c1: "calls_of ''RouterModule_register'' ?pre = []"
      by (simp add: calls_of_def Core_prefix_def Core_setup_def Core_admin_def)
    have c2: "calls_of ''Core_admin_register'' ?pre = []"
      by (simp add: calls_of_def Core_prefix_def Core_setup_def Core_admin_def)
    have c3: "calls_of ''RouterModule_register'' (Core_wiring privateKey ?addr) =
                 [[Registry [''ReplyModule''], Handle ''alloc'', AddrKey publicKey,
                   Handle ''eventBase'', Handle ''logger'', Handle ''admin'']]"
      by (simp add: calls_of_def Core_wiring_def Let_def DHTModuleRegistry_new_def
            ReplyModule_register_def DHTModuleRegistry_register_def)
    have c4: "calls_of ''Core_admin_register'' (Core_wiring privateKey ?addr) =
                 [[AddrIp6 address, Handle ''dt'', Handle ''logger'', Handle ''alloc'',
                   Handle ''admin'', Handle ''eventBase'']]"
      by (simp add: calls_of_def Core_wiring_def Let_def)
    from True pp m show ?thesis
      by (simp add: calls_of_append c1 c2 c3 c4 filter_Derive_prefix filter_Derive_wiring)
  next
    case False
    with p assms(5,6) have pp: "?derive privateKey
        = Inl (Exception (- 1) ''Ip address outside of the FC00/8 range, invalid private key.'')"
      by simp
    have n: "\<not> list_ex is_module_construction ?pre"
      by (simp add: Core_prefix_def Core_setup_def Core_admin_def module_constructors_def)
    from False pp m n show ?thesis
      by (simp add: identity_receivers_prefix filter_Derive_prefix)
  qed
qed

theorem identity_derivation_witness:
  "snd (Core_main example_externals_outside example_inputs) =
     Inl (Exception (- 1) ''Ip address outside of the FC00/8 range, invalid private key.'')
   \<and> identity_receivers (fst (Core_main example_externals_outside example_inputs)) = []
   \<and> snd (Core_main example_externals example_inputs) = Inr 0
   \<and> calls_of ''Core_admin_register'' (fst (Core_main example_externals example_inputs)) =
       [[AddrIp6 [0xFC, 1, 2, 3, 4, 5, 6, 7, 8, 9, 10, 11, 12, 13, 14, 15], Handle ''dt'',
         Handle ''logger'', Handle ''alloc'', Handle ''admin'', Handle ''eventBase'']]"
  using identity_derivation[of example_inputs 3 4 example_externals_outside example_config
          "''abc''" example_key "map (\<lambda>b. b + 1) example_key"
          "0x20 # take 15 (map (\<lambda>b. b + 1) example_key)"]
        identity_derivation[of example_inputs 3 4 example_externals example_config
          "''abc''" example_key "map (\<lambda>b. b + 1) example_key"
          "0xFC # take 15 (map (\<lambda>b. b + 1) example_key)"]
  by (simp add: example_inputs_def example_externals_def example_externals_outside_def
        example_Core_args example_getInitialConfig example_Core_config)
     (simp add: example_key_def)

text \<open>
  C2. From the allocator that \<^verbatim>\<open>Core_main\<close> makes with \<^verbatim>\<open>ALLOCATOR_FAILSAFE\<close>, that is
  2^22 bytes: every sequence of allocations whose sizes add up to at most 2^22 succeeds,
  each allocation giving a zeroed block of the size asked for; and when the sizes so far
  add up to at most 2^22 and the next one takes the sum above 2^22, the sequence ends at
  that allocation with the termination of the process, whatever follows it.
\<close>

theorem allocator_failsafe:
  "ALLOCATOR_FAILSAFE = 2 ^ 22
   \<and> (sum_list ns \<le> 2 ^ 22 \<longrightarrow>
        allocate_all ns (MallocAllocator_new ALLOCATOR_FAILSAFE)
          = Inr (map (\<lambda>n. replicate n 0) ns, \<lparr>ceiling = 2 ^ 22, allocated = sum_list ns\<rparr>))
   \<and> (sum_list ns \<le> 2 ^ 22 \<and> 2 ^ 22 < sum_list ns + n \<longrightarrow>
        allocate_all (ns @ n # rest) (MallocAllocator_new ALLOCATOR_FAILSAFE)
          = Inl AllocatorFailsafe)"
proof -
  have f: "ALLOCATOR_FAILSAFE = 2 ^ 22" by (simp add: ALLOCATOR_FAILSAFE_def)
  have a: "allocate_all ns (MallocAllocator_new ALLOCATOR_FAILSAFE)
          = Inr (map (\<lambda>n. replicate n 0) ns, \<lparr>ceiling = 2 ^ 22, allocated = sum_list ns\<rparr>)"
    if "sum_list ns \<le> 2 ^ 22"
    using allocate_all_fits[of "MallocAllocator_new ALLOCATOR_FAILSAFE" ns] that
    by (simp add: MallocAllocator_new_def f)
  have b: "allocate_all (ns @ n # rest) (MallocAllocator_new ALLOCATOR_FAILSAFE)
          = Inl AllocatorFailsafe"
    if "sum_list ns \<le> 2 ^ 22" "2 ^ 22 < sum_list ns + n"
    using a[OF that(1)] that(2) by (simp add: allocate_all_append allocate_def)
  from f a b show ?thesis by blast
qed

theorem allocator_failsafe_witness:
  "allocate_all [4194303, 1] (MallocAllocator_new ALLOCATOR_FAILSAFE)
     = Inr ([replicate 4194303 0, [0]], \<lparr>ceiling = 4194304, allocated = 4194304\<rparr>)
   \<and> allocate_all [4194303, 1, 1, 5] (MallocAllocator_new ALLOCATOR_FAILSAFE)
       = Inl AllocatorFailsafe"
  using allocator_failsafe[of "[4194303, 1]" 1 "[5]"] by simp

text \<open>
  C3. In every run that gets past the argument check and \<^verbatim>\<open>fdopen\<close> and receives a
  valid configuration (a \<^verbatim>\<open>privateKey\<close> of 64 hex characters and \<^verbatim>\<open>admin.pass\<close>), the
  first event is the generation of the 8 random bytes, and the one \<^verbatim>\<open>write\<close> of Core.c
  to the outbound pipe is \<^verbatim>\<open>d5:angeld9:syncMagic16:<hex>ee\<close>, the wire form of the dictionary
  \<^verbatim>\<open>{"angel": {"syncMagic": <hex>}}\<close>, where \<^verbatim>\<open><hex>\<close> is the hex coding of those 8
  bytes: 16 characters, all of them lowercase hex digits.
\<close>

theorem acknowledgement_written:
  assumes "Core_args (in_argv inp) = Inr (toAngel, fromAngel)"
    and "in_fdopen inp"
    and "getInitialConfig (ext_INITIAL_CONF_BUFF_SIZE ext) (ext_parseDictionary ext)
           (in_fromAngel inp) = Inr config"
    and "config_valid config"
    and "length (in_random inp) = 8"
  shows "hd (fst (Core_main ext inp)) = Randombytes (in_random inp)
       \<and> filter is_Write (fst (Core_main ext inp))
           = [Write toAngel (acknowledgement (in_random inp))]
       \<and> StandardBencSerializer_parseDictionary (acknowledgement (in_random inp))
           = Some [(''angel'',
                    Dict_OBJ [(''syncMagic'', String_OBJ (Hex_encode (in_random inp)))])]
       \<and> length (Hex_encode (in_random inp)) = 16
       \<and> list_all (\<lambda>c. c \<in> set hexEntities) (Hex_encode (in_random inp))"
proof -
  from assms(4) obtain pass pk where cc: "Core_config config = Inr (pass, pk)"
    unfolding Core_config_valid by blast
  note w = sendResponse_eq[OF assms(5), of toAngel]
  note m = Core_main_derive[OF assms(1-3) cc w]
  have len: "length (Hex_encode (in_random inp)) = 16"
    using assms(5) by (simp add: length_Hex_encode)
  have "filter is_Write (fst (Core_main ext inp)) = [Write toAngel (acknowledgement (in_random inp))]"
    unfolding m
    by (cases "parsePrivateKey (ext_scalarmult_base ext) (ext_addressForPublicKey ext) pk")
       (simp_all add: filter_Write_prefix filter_Write_wiring)
  moreover have "StandardBencSerializer_parseDictionary (acknowledgement (in_random inp))
           = Some [(''angel'',
                    Dict_OBJ [(''syncMagic'', String_OBJ (Hex_encode (in_random inp)))])]"
    unfolding acknowledgement_def by (rule parse_ack[OF len])
  ultimately show ?thesis
    using len by (simp add: hd_Core_main Hex_encode_lower)
qed

theorem acknowledgement_written_witness:
  "filter is_Write (fst (Core_main example_externals example_inputs))
     = [Write 3 ''d5:angeld9:syncMagic16:0123456789abcdefee'']
   \<and> hd (fst (Core_main example_externals example_inputs))
       = Randombytes [0x01, 0x23, 0x45, 0x67, 0x89, 0xAB, 0xCD, 0xEF]
   \<and> StandardBencSerializer_parseDictionary ''d5:angeld9:syncMagic16:0123456789abcdefee''
       = Some [(''angel'', Dict_OBJ [(''syncMagic'', String_OBJ ''0123456789abcdef'')])]"
proof -
  have v: "config_valid example_config"
    unfolding Core_config_valid using example_Core_config by blast
  have h: "Hex_encode example_magic = ''0123456789abcdef''" by code_simp
  have l: "length (in_random example_inputs) = 8"
    by (simp add: example_inputs_def example_magic_def)
  show ?thesis
    using acknowledgement_written[of example_inputs 3 4 example_externals example_config]
      v l example_ack h
    by (simp add: example_inputs_def example_externals_def example_Core_args
          example_getInitialConfig)
       (simp add: example_magic_def)
qed




text \<open>
  C5 as the spec states it fails on the code: \<^verbatim>\<open>sendResponse\<close> is called at line 239 and
  \<^verbatim>\<open>parsePrivateKey\<close> at line 253. In the run below the write of the ready response
  stands before the derivation; and with an address function whose addresses are outside
  FC00/8 the ready response is written although the derivation then fails.
\<close>

theorem response_order_counterexample:
  "\<not> not_before is_Derive is_Write (fst (Core_main example_externals example_inputs))
   \<and> filter is_Write (fst (Core_main example_externals_outside example_inputs))
       = [Write 3 ''d5:angeld9:syncMagic16:0123456789abcdefee'']
   \<and> snd (Core_main example_externals_outside example_inputs)
       = Inl (Exception (- 1) ''Ip address outside of the FC00/8 range, invalid private key.'')"
  by (simp add: example_run example_run_outside filter_Write_prefix example_ack)
     (simp add: Core_prefix_def Core_setup_def Core_admin_def)

text \<open>
  C5, amended. In every run the ready response is written before the identity is derived:
  no derivation happens before the write, and the admin channel and the admin logger are
  constructed between the two. The derivation precedes the construction of the
  crypto-session layer, the switch, the registry and its modules, the router and every
  later component: none of them is constructed before the derivation, and none in a run
  that does not derive.
\<close>

theorem response_before_derivation:
  "not_before is_Write is_Derive (fst (Core_main ext inp))
   \<and> not_before is_Write is_admin_construction (fst (Core_main ext inp))
   \<and> not_before is_admin_construction is_Derive (fst (Core_main ext inp))
   \<and> not_before is_Derive is_module_construction (fst (Core_main ext inp))"
proof (cases rule: Core_main_cases[of inp ext])
  case (args e)
  then show ?thesis by simp
next
  case (fdopen toAngel fromAngel)
  then show ?thesis by (simp add: module_constructors_def)
next
  case (read toAngel fromAngel e)
  then show ?thesis by (simp add: Core_setup_def module_constructors_def)
next
  case (keys toAngel fromAngel config e logged)
  then show ?thesis by (auto simp: Core_setup_def module_constructors_def)
next
  case (derive toAngel fromAngel config pass pk w e)
  then show ?thesis
    by (simp add: Core_prefix_def Core_setup_def Core_admin_def module_constructors_def)
next
  case (loop toAngel fromAngel config pass pk w addr)
  then show ?thesis
    by (simp add: Core_prefix_def Core_setup_def Core_admin_def module_constructors_def)
qed

theorem response_before_derivation_witness:
  "not_before is_Write is_Derive (fst (Core_main example_externals example_inputs))
   \<and> not_before is_Derive is_module_construction (fst (Core_main example_externals example_inputs))
   \<and> list_ex is_Write (fst (Core_main example_externals example_inputs))
   \<and> list_ex is_Derive (fst (Core_main example_externals example_inputs))
   \<and> list_ex is_module_construction (fst (Core_main example_externals example_inputs))"
  using response_before_derivation[of example_externals example_inputs]
  by (simp add: example_run)
     (simp add: Core_prefix_def Core_setup_def Core_admin_def Core_wiring_def Let_def
        module_constructors_def)



text \<open>
  C7. For every configuration that \<^verbatim>\<open>getInitialConfig\<close> decodes: when it holds a
  \<^verbatim>\<open>privateKey\<close> string of exactly 64 hex characters and an \<^verbatim>\<open>admin\<close> dictionary with a
  \<^verbatim>\<open>pass\<close> string, the key check gives the password and a key of 32 bytes; in every other
  case (a key missing or of another kind, 63 or 65 characters, a character that is no hex
  digit) the run ends with one of the two fatal errors of lines 229 and 236, before
  \<^verbatim>\<open>sendResponse\<close> is called: the ready response is not written.
\<close>

theorem configuration_keys_required:
  assumes "Core_args (in_argv inp) = Inr (toAngel, fromAngel)"
    and "in_fdopen inp"
    and "getInitialConfig (ext_INITIAL_CONF_BUFF_SIZE ext) (ext_parseDictionary ext)
           (in_fromAngel inp) = Inr config"
  shows "if config_valid config
         then \<exists>pass privateKey. Core_config config = Inr (pass, privateKey)
                \<and> length privateKey = 32
         else \<exists>msg. Core_config config = Inl (Exception (- 1) msg)
                \<and> snd (Core_main ext inp) = Inl (Exception (- 1) msg)
                \<and> (msg = ''Expected 'pass' and 'privateKey' in configuration.''
                   \<or> msg = ''privateKey must be 64 bytes of hex.'')
                \<and> filter is_Write (fst (Core_main ext inp)) = []"
proof (cases "config_valid config")
  case True
  then obtain pass pk where cc: "Core_config config = Inr (pass, pk)"
    unfolding Core_config_valid by blast
  with Core_config_length[OF cc] True show ?thesis by auto
next
  case False
  then have "\<nexists>p. Core_config config = Inr p" unfolding Core_config_valid by auto
  then obtain e where e: "Core_config config = Inl e"
    by (cases "Core_config config") auto
  from Core_config_Inl[OF e] obtain msg where
    msg: "e = Exception (- 1) msg"
      "msg = ''Expected 'pass' and 'privateKey' in configuration.''
       \<or> msg = ''privateKey must be 64 bytes of hex.''"
    by blast
  from Core_main_bad_config[OF assms e] obtain logged where
    m: "logged = [] \<or> (\<exists>pass. logged = [Log_keys pass])"
       "Core_main ext inp =
          ([Randombytes (in_random inp)] @ Core_setup toAngel @ [GetData fromAngel] @ logged,
           Inl e)"
    by blast
  from m have "filter is_Write (fst (Core_main ext inp)) = []"
    by (auto simp: filter_Write_setup)
  with False e msg m(2) show ?thesis by simp
qed

theorem configuration_keys_required_witness:
  "snd (Core_main example_externals (example_inputs\<lparr>in_fromAngel := Inr example_blob_short\<rparr>))
     = Inl (Exception (- 1) ''privateKey must be 64 bytes of hex.'')
   \<and> filter is_Write
       (fst (Core_main example_externals (example_inputs\<lparr>in_fromAngel := Inr example_blob_short\<rparr>)))
     = []
   \<and> \<not> config_valid example_config_short"
proof -
  have v: "\<not> config_valid example_config_short"
    unfolding Core_config_valid by (simp add: example_Core_config_short)
  show ?thesis
    using configuration_keys_required[of "example_inputs\<lparr>in_fromAngel := Inr example_blob_short\<rparr>"
        3 4 example_externals example_config_short] v
    by (simp add: example_inputs_def example_externals_def example_Core_args
          example_getInitialConfig_short example_Core_config_short)
qed

text \<open>
  C8. The inbound pipe is read into the buffer of \<^verbatim>\<open>AngelChan_INITIAL_CONF_BUFF_SIZE\<close>
  bytes. In every run that gets past the argument check and \<^verbatim>\<open>fdopen\<close>: when the pipe
  delivers at least as many bytes as the buffer holds (the buffer is exhausted), or when
  the parser does not decode the buffer as a dictionary, the run ends with the fatal error
  of line 132 or of line 138, before \<^verbatim>\<open>sendResponse\<close> and \<^verbatim>\<open>parsePrivateKey\<close> are
  called: the ready response is not written and no identity is derived.
\<close>

theorem handshake_read_fatal:
  assumes "Core_args (in_argv inp) = Inr (toAngel, fromAngel)"
    and "in_fdopen inp"
    and "in_fromAngel inp = Inr delivered"
    and "ext_INITIAL_CONF_BUFF_SIZE ext \<le> length delivered
         \<or> ext_parseDictionary ext
              (delivered @ replicate (ext_INITIAL_CONF_BUFF_SIZE ext - length delivered)
                 (CHR 0x00)) = None"
  shows "snd (Core_main ext inp) =
           (if ext_INITIAL_CONF_BUFF_SIZE ext \<le> length delivered
            then Inl (Exception (- 1) ''initial config exceeds INITIAL_CONF_BUFF_SIZE'')
            else Inl (Exception (- 1) ''Failed to parse initial configuration.''))
       \<and> filter is_Write (fst (Core_main ext inp)) = []
       \<and> filter is_Derive (fst (Core_main ext inp)) = []"
proof -
  let ?n = "ext_INITIAL_CONF_BUFF_SIZE ext"
  let ?e = "if ?n \<le> length delivered
            then Exception (- 1) ''initial config exceeds INITIAL_CONF_BUFF_SIZE''
            else Exception (- 1) ''Failed to parse initial configuration.''"
  have g: "getInitialConfig ?n (ext_parseDictionary ext) (in_fromAngel inp) = Inl ?e"
  proof (cases "?n \<le> length delivered")
    case True
    then show ?thesis using getInitialConfig_full[OF True] assms(3) by simp
  next
    case False
    with assms(4) have "ext_parseDictionary ext
              (delivered @ replicate (?n - length delivered) (CHR 0x00)) = None" by simp
    with False assms(3) show ?thesis
      using getInitialConfig_unparsed[of delivered ?n "ext_parseDictionary ext"] by simp
  qed
  note m = Core_main_no_config[OF assms(1,2) g]
  show ?thesis unfolding m by (simp add: filter_Write_setup Core_setup_def)
qed

theorem handshake_read_fatal_witness:
  "snd (Core_main example_externals
          (example_inputs\<lparr>in_fromAngel := Inr example_blob_truncated\<rparr>))
     = Inl (Exception (- 1) ''Failed to parse initial configuration.'')
   \<and> filter is_Write
       (fst (Core_main example_externals
               (example_inputs\<lparr>in_fromAngel := Inr example_blob_truncated\<rparr>))) = []
   \<and> snd (Core_main example_externals
          (example_inputs\<lparr>in_fromAngel := Inr (replicate 10000 (CHR ''x''))\<rparr>))
     = Inl (Exception (- 1) ''initial config exceeds INITIAL_CONF_BUFF_SIZE'')"
proof -
  have l: "length example_blob_truncated = 41" by (simp add: example_blob_truncated_def)
  show ?thesis
    using handshake_read_fatal[of "example_inputs\<lparr>in_fromAngel := Inr example_blob_truncated\<rparr>"
            3 4 example_blob_truncated example_externals]
          handshake_read_fatal[of
            "example_inputs\<lparr>in_fromAngel := Inr (replicate 10000 (CHR ''x''))\<rparr>"
            3 4 "replicate 10000 (CHR ''x'')" example_externals]
          example_truncated_unparsed
    by (simp add: example_inputs_def example_externals_def example_Core_args l)
qed

text \<open>
  C9 as the spec states it fails on the code: an invocation with exactly two numeric,
  non-zero arguments beyond the program name ends with the fatal error, and an invocation
  with three further arguments, of which the last two only begin with a non-zero number,
  gets past the argument check.
\<close>

theorem argument_check_counterexample:
  "spec_invocation_ok [''cjdns'', ''3'', ''4'']
   \<and> Core_args [''cjdns'', ''3'', ''4'']
       = Inl (Exception (- 1) ''This is internal to cjdns and shouldn't started manually.'')
   \<and> \<not> spec_invocation_ok [''cjdns'', ''core'', ''3x'', '' 4'']
   \<and> Core_args [''cjdns'', ''core'', ''3x'', '' 4''] = Inr (3, 4)"
  by code_simp

text \<open>
  C9, amended. A run gets past the argument check if and only if \<^verbatim>\<open>argc\<close> is 4 (the
  program name and three further arguments) and \<^verbatim>\<open>atoi\<close> gives a non-zero \<^verbatim>\<open>int\<close> for
  \<^verbatim>\<open>argv[2]\<close>, the outbound descriptor, and for \<^verbatim>\<open>argv[3]\<close>, the inbound descriptor;
  \<^verbatim>\<open>argv[1]\<close> is not looked at. In every other case the run ends, right after the random
  bytes are drawn, with the fatal error whose message says that the process is internal
  and not to be started by hand. For an argument whose number is within the range of
  \<^verbatim>\<open>int\<close>, \<^verbatim>\<open>atoi\<close> gives that number, so the test is that the number is not zero.
\<close>

theorem argument_check:
  assumes "in_argv inp = argv"
  shows "(if length argv = 4 \<and> atoi (argv ! 2) \<noteq> 0 \<and> atoi (argv ! 3) \<noteq> 0
          then Core_args argv = Inr (atoi (argv ! 2), atoi (argv ! 3))
          else Core_args argv
                 = Inl (Exception (- 1)
                     ''This is internal to cjdns and shouldn't started manually.'')
             \<and> Core_main ext inp
                 = ([Randombytes (in_random inp)],
                    Inl (Exception (- 1)
                      ''This is internal to cjdns and shouldn't started manually.'')))
       \<and> (\<forall>s. - (2 ^ 31) \<le> decimal_value s \<and> decimal_value s < 2 ^ 31 \<longrightarrow>
                sint (atoi s) = decimal_value s \<and> (atoi s = 0 \<longleftrightarrow> decimal_value s = 0))"
proof -
  have "if length argv = 4 \<and> atoi (argv ! 2) \<noteq> 0 \<and> atoi (argv ! 3) \<noteq> 0
          then Core_args argv = Inr (atoi (argv ! 2), atoi (argv ! 3))
          else Core_args argv
                 = Inl (Exception (- 1)
                     ''This is internal to cjdns and shouldn't started manually.'')
             \<and> Core_main ext inp
                 = ([Randombytes (in_random inp)],
                    Inl (Exception (- 1)
                      ''This is internal to cjdns and shouldn't started manually.''))"
    using assms by (auto simp: Core_args_def Core_main_def Except_raise_def)
  then show ?thesis using atoi_in_range atoi_zero_in_range by blast
qed

theorem argument_check_witness:
  "Core_args [''cjdns'', ''core'', ''3'', ''4''] = Inr (3, 4)
   \<and> Core_main example_externals (example_inputs\<lparr>in_argv := [''cjdns'', ''3'', ''4'']\<rparr>)
       = ([Randombytes example_magic],
          Inl (Exception (- 1) ''This is internal to cjdns and shouldn't started manually.''))
   \<and> Core_args [''cjdns'', ''core'', ''4294967296'', ''4'']
       = Inl (Exception (- 1) ''This is internal to cjdns and shouldn't started manually.'')
   \<and> sint (atoi ''-7'') = - 7"
proof -
  have a: "atoi ''3'' = 3" "atoi ''4'' = 4" "atoi ''4294967296'' = 0" by code_simp+
  have d: "decimal_value ''-7'' = - 7" by code_simp
  show ?thesis
    using argument_check[of example_inputs "[''cjdns'', ''core'', ''3'', ''4'']" example_externals]
      argument_check[of "example_inputs\<lparr>in_argv := [''cjdns'', ''3'', ''4'']\<rparr>"
        "[''cjdns'', ''3'', ''4'']" example_externals]
      argument_check[of "example_inputs\<lparr>in_argv := [''cjdns'', ''core'', ''4294967296'', ''4'']\<rparr>"
        "[''cjdns'', ''core'', ''4294967296'', ''4'']" example_externals]
    by (simp add: example_inputs_def a d)
qed

text \<open>
  C10. When the read fills the configuration buffer (the pipe delivers at least
  \<^verbatim>\<open>AngelChan_INITIAL_CONF_BUFF_SIZE\<close> bytes, so that \<^verbatim>\<open>amountRead\<close> equals the buffer
  size), \<^verbatim>\<open>getInitialConfig\<close> raises the fatal error of line 132 whatever the parser would
  make of the bytes, also when they are a complete, well-formed dictionary, and a run that
  has got that far ends with this error. A configuration is accepted only from strictly
  fewer bytes than the buffer holds.
\<close>

theorem exact_fill_refused:
  assumes "Core_args (in_argv inp) = Inr (toAngel, fromAngel)"
    and "in_fdopen inp"
    and "in_fromAngel inp = Inr delivered"
  shows "(length delivered = ext_INITIAL_CONF_BUFF_SIZE ext \<longrightarrow>
            Waiter_getData (ext_INITIAL_CONF_BUFF_SIZE ext) (in_fromAngel inp)
              = Inr (ext_INITIAL_CONF_BUFF_SIZE ext, delivered)
          \<and> getInitialConfig (ext_INITIAL_CONF_BUFF_SIZE ext) (ext_parseDictionary ext)
              (in_fromAngel inp)
              = Inl (Exception (- 1) ''initial config exceeds INITIAL_CONF_BUFF_SIZE'')
          \<and> snd (Core_main ext inp)
              = Inl (Exception (- 1) ''initial config exceeds INITIAL_CONF_BUFF_SIZE''))
       \<and> (\<forall>config.
            getInitialConfig (ext_INITIAL_CONF_BUFF_SIZE ext) (ext_parseDictionary ext)
              (in_fromAngel inp) = Inr config
            \<longrightarrow> length delivered < ext_INITIAL_CONF_BUFF_SIZE ext)"
proof -
  let ?n = "ext_INITIAL_CONF_BUFF_SIZE ext"
  have a: "snd (Core_main ext inp)
              = Inl (Exception (- 1) ''initial config exceeds INITIAL_CONF_BUFF_SIZE'')"
    if "length delivered = ?n"
  proof -
    from that have "getInitialConfig ?n (ext_parseDictionary ext) (in_fromAngel inp)
              = Inl (Exception (- 1) ''initial config exceeds INITIAL_CONF_BUFF_SIZE'')"
      using getInitialConfig_full[of ?n delivered] assms(3) by simp
    from Core_main_no_config[OF assms(1,2) this] show ?thesis by simp
  qed
  have b: "Waiter_getData ?n (in_fromAngel inp) = Inr (?n, delivered)"
    if "length delivered = ?n"
    using that assms(3) by (simp add: Waiter_getData_def Let_def)
  show ?thesis
    using a b assms(3) getInitialConfig_full[of ?n delivered "ext_parseDictionary ext"]
    by (auto simp: getInitialConfig_Inr_iff)
qed

theorem exact_fill_refused_witness:
  "length example_blob = ext_INITIAL_CONF_BUFF_SIZE example_externals_exact
   \<and> ext_parseDictionary example_externals_exact example_blob = Some example_config
   \<and> snd (Core_main example_externals_exact example_inputs)
       = Inl (Exception (- 1) ''initial config exceeds INITIAL_CONF_BUFF_SIZE'')
   \<and> snd (Core_main example_externals example_inputs) = Inr 0"
proof -
  have s: "snd (Core_main example_externals example_inputs) = Inr 0"
    using Core_main_derive[of example_inputs 3 4 example_externals example_config "''abc''"
            example_key "acknowledgement example_magic"]
          sendResponse_eq[of example_magic 3]
    by (simp add: example_inputs_def example_externals_def example_Core_args
          example_getInitialConfig example_Core_config parsePrivateKey_eq)
       (simp add: example_magic_def)
  show ?thesis
    using exact_fill_refused[of example_inputs 3 4 example_blob example_externals_exact]
      example_blob_parses s
    by (simp add: example_inputs_def example_externals_exact_def example_externals_def
          example_Core_args)
qed

end
